theory Spec2Isabelle
  imports Main "HOL-Library.Sublist"
begin

section \<open>Strings and the library functions the wrapper calls\<close>

text \<open>
  Python strings are modelled as \<open>string\<close> (lists of 8-bit characters). The three
  characters that matter to shell quoting are the single quote, the double quote and
  the backslash.
\<close>

definition squote :: char where
  "squote = CHR 0x27"

definition dquote :: char where
  "dquote = CHR 0x22"

definition backslash :: char where
  "backslash = CHR 0x5C"

text \<open>
  \<open>os.environ.get(key, default)\<close>: the environment is a partial map from names to
  values.
\<close>

type_synonym environ = "string \<rightharpoonup> string"

definition environ_get :: "environ \<Rightarrow> string \<Rightarrow> string \<Rightarrow> string" where
  "environ_get env k d = (case env k of None \<Rightarrow> d | Some v \<Rightarrow> v)"

text \<open>
  \<open>str.lower()\<close>. On ASCII it maps \<open>A..Z\<close> to \<open>a..z\<close> and keeps every other
  character. The only use in the module is the membership test of the lowered enable
  flag in \<open>('true', '1', 'yes')\<close>; no character outside ASCII lowers to a letter of
  these three words, so the ASCII table decides that test.
\<close>

definition ascii_uppercase :: string where
  "ascii_uppercase = ''ABCDEFGHIJKLMNOPQRSTUVWXYZ''"

definition ascii_lowercase :: string where
  "ascii_lowercase = ''abcdefghijklmnopqrstuvwxyz''"

definition lower_char :: "char \<Rightarrow> char" where
  "lower_char c =
     (case map_of (zip ascii_uppercase ascii_lowercase) c of None \<Rightarrow> c | Some d \<Rightarrow> d)"

definition lower :: "string \<Rightarrow> string" where
  "lower s = map lower_char s"

text \<open>\<open>sep.join(parts)\<close>.\<close>

fun join :: "string \<Rightarrow> string list \<Rightarrow> string" where
  "join sep [] = []"
| "join sep [x] = x"
| "join sep (x # y # ys) = x @ sep @ join sep (y # ys)"

text \<open>
  \<open>s.replace(old, new)\<close> for a one-character \<open>old\<close>, the only form the quoting
  function uses.
\<close>

definition replace_char :: "char \<Rightarrow> string \<Rightarrow> string \<Rightarrow> string" where
  "replace_char old new s = concat (map (\<lambda>c. if c = old then new else [c]) s)"

subsection \<open>\<open>shlex.quote\<close>\<close>

text \<open>
  The standard library's
  \<^verbatim>\<open>
  _find_unsafe = re.compile(r'[^\w@%+=:,./-]', re.ASCII).search
  def quote(s):
      if not s:
          return "''"
      if _find_unsafe(s) is None:
          return s
      return "'" + s.replace("'", "'\"'\"'") + "'"
  \<close>
  With \<open>re.ASCII\<close>, \<open>\w\<close> is \<open>[a-zA-Z0-9_]\<close>.
\<close>

definition safe_chars :: string where
  "safe_chars =
     ''abcdefghijklmnopqrstuvwxyzABCDEFGHIJKLMNOPQRSTUVWXYZ0123456789_'' @ ''@%+=:,./-''"

definition find_unsafe :: "string \<Rightarrow> char option" where
  "find_unsafe s = find (\<lambda>c. c \<notin> set safe_chars) s"

definition shlex_quote :: "string \<Rightarrow> string" where
  "shlex_quote s =
     (if s = [] then [squote, squote]
      else if find_unsafe s = None then s
      else [squote] @ replace_char squote [squote, dquote, squote, dquote, squote] s @ [squote])"

section \<open>The wrapper object\<close>

text \<open>The five attributes \<open>__init__\<close> assigns.\<close>

record wrapper =
  ssh_enabled :: bool
  ssh_user :: string
  ssh_host :: string
  ssh_port :: string
  ssh_key :: string

datatype error = ValueError string

definition user_required :: string where
  "user_required = ''KUBECTL_SSH_USER environment variable is required when SSH mode is enabled''"

definition host_required :: string where
  "host_required = ''KUBECTL_SSH_HOST environment variable is required when SSH mode is enabled''"

text \<open>
  \<open>_validate_config\<close>: the two checks that raise, in the source's order. The check
  of the key file that follows them only logs a warning (\<open>os.path.exists\<close> returns
  a boolean and the logger returns nothing), so it has no branch here.
\<close>

definition validate_config :: "wrapper \<Rightarrow> error + unit" where
  "validate_config w =
     (if ssh_user w = [] then Inl (ValueError user_required)
      else if ssh_host w = [] then Inl (ValueError host_required)
      else Inr ())"

text \<open>
  \<open>__init__\<close>, first half: the five attribute assignments from the environment.
\<close>

definition read_settings :: "environ \<Rightarrow> wrapper" where
  "read_settings env =
     \<lparr> ssh_enabled =
         lower (environ_get env ''KUBECTL_SSH_ENABLED'' ''false'') \<in> set [''true'', ''1'', ''yes''],
       ssh_user = environ_get env ''KUBECTL_SSH_USER'' [],
       ssh_host = environ_get env ''KUBECTL_SSH_HOST'' [],
       ssh_port = environ_get env ''KUBECTL_SSH_PORT'' ''22'',
       ssh_key = environ_get env ''KUBECTL_SSH_KEY'' [] \<rparr>"

text \<open>
  \<open>__init__\<close>, second half: validation when enabled. A raise leaves no object. The
  logger calls of both branches return nothing and are left out.
\<close>

definition init :: "environ \<Rightarrow> error + wrapper" where
  "init env =
     (let w = read_settings env
      in if ssh_enabled w
         then (case validate_config w of Inl e \<Rightarrow> Inl e | Inr _ \<Rightarrow> Inr w)
         else Inr w)"

section \<open>The command transformer over a store of list objects\<close>

text \<open>
  Python lists are mutable objects reached through references, and \<open>wrap_command\<close>
  works by \<open>extend\<close> and \<open>append\<close>. The store holds the wrapper object \<open>self\<close> and
  the list objects; a reference to a list is its index in \<open>lists\<close>, and a new list is
  allocated at the end.
\<close>

type_synonym ref = nat

record store =
  self :: wrapper
  lists :: "string list list"

definition new_list :: "string list \<Rightarrow> store \<Rightarrow> ref \<times> store" where
  "new_list xs s = (length (lists s), s\<lparr>lists := lists s @ [xs]\<rparr>)"

definition list_extend :: "ref \<Rightarrow> string list \<Rightarrow> store \<Rightarrow> store" where
  "list_extend r ys s = s\<lparr>lists := (lists s)[r := lists s ! r @ ys]\<rparr>"

definition list_append :: "ref \<Rightarrow> string \<Rightarrow> store \<Rightarrow> store" where
  "list_append r y s = s\<lparr>lists := (lists s)[r := lists s ! r @ [y]]\<rparr>"

text \<open>
  \<open>wrap_command(self, cmd)\<close>. \<open>os.path.expanduser\<close> depends on the process's home
  directory and the user database; it is the parameter \<open>xp\<close>. The result is the
  returned reference together with the store after the call.
\<close>

definition wrap_command_st :: "(string \<Rightarrow> string) \<Rightarrow> store \<Rightarrow> ref \<Rightarrow> ref \<times> store" where
  "wrap_command_st xp s cmd =
     (if \<not> ssh_enabled (self s) then (cmd, s)
      else
        let (ssh_cmd, s1) = new_list [''ssh''] s;
            s2 = (if ssh_port (self s1) \<noteq> [] \<and> ssh_port (self s1) \<noteq> ''22''
                  then list_extend ssh_cmd [''-p'', ssh_port (self s1)] s1 else s1);
            s3 = (if ssh_key (self s2) \<noteq> []
                  then let expanded_key = xp (ssh_key (self s2))
                       in list_extend ssh_cmd [''-i'', expanded_key] s2
                  else s2);
            s4 = list_extend ssh_cmd
                   [''-o'', ''StrictHostKeyChecking=no'',
                    ''-o'', ''UserKnownHostsFile=/dev/null'',
                    ''-o'', ''LogLevel=ERROR''] s3;
            s5 = list_append ssh_cmd (ssh_user (self s4) @ ''@'' @ ssh_host (self s4)) s4;
            remote_command = join '' '' (map shlex_quote (lists s5 ! cmd));
            s6 = list_append ssh_cmd remote_command s5
        in (ssh_cmd, s6))"

text \<open>
  The value a caller sees: the contents of the returned list, for a call whose argument
  is a list holding \<open>cmd\<close>.
\<close>

definition wrap_command :: "(string \<Rightarrow> string) \<Rightarrow> wrapper \<Rightarrow> string list \<Rightarrow> string list" where
  "wrap_command xp w cmd =
     (let (r, s') = wrap_command_st xp \<lparr>self = w, lists = [cmd]\<rparr> 0 in lists s' ! r)"

text \<open>
  \<open>wrap_shell_command(self, cmd)\<close>. Strings are immutable values, so only \<open>self\<close> is
  threaded through.
\<close>

definition wrap_shell_command_st :: "(string \<Rightarrow> string) \<Rightarrow> wrapper \<Rightarrow> string \<Rightarrow> string \<times> wrapper" where
  "wrap_shell_command_st xp slf cmd =
     (if \<not> ssh_enabled slf then (cmd, slf)
      else
        let ssh_prefix = ''ssh'';
            ssh_prefix = (if ssh_port slf \<noteq> [] \<and> ssh_port slf \<noteq> ''22''
                          then ssh_prefix @ '' -p '' @ ssh_port slf else ssh_prefix);
            ssh_prefix = (if ssh_key slf \<noteq> []
                          then let expanded_key = xp (ssh_key slf)
                               in ssh_prefix @ '' -i '' @ shlex_quote expanded_key
                          else ssh_prefix);
            ssh_prefix = ssh_prefix @
              '' -o StrictHostKeyChecking=no -o UserKnownHostsFile=/dev/null -o LogLevel=ERROR'';
            wrapped_cmd = ssh_prefix @ '' '' @ ssh_user slf @ ''@'' @ ssh_host slf @ '' '' @
                          shlex_quote cmd
        in (wrapped_cmd, slf))"

definition wrap_shell_command :: "(string \<Rightarrow> string) \<Rightarrow> wrapper \<Rightarrow> string \<Rightarrow> string" where
  "wrap_shell_command xp w cmd = fst (wrap_shell_command_st xp w cmd)"

section \<open>Query accessor\<close>

text \<open>
  \<open>get_connection_info\<close> returns a dict whose values are a bool, strings or
  \<open>None\<close>.
\<close>

datatype pyval = PyBool bool | PyStr string | PyNone

definition get_connection_info :: "wrapper \<Rightarrow> (string \<rightharpoonup> pyval)" where
  "get_connection_info w =
     [''enabled'' \<mapsto> PyBool (ssh_enabled w),
      ''user'' \<mapsto> (if ssh_enabled w then PyStr (ssh_user w) else PyNone),
      ''host'' \<mapsto> (if ssh_enabled w then PyStr (ssh_host w) else PyNone),
      ''port'' \<mapsto> (if ssh_enabled w then PyStr (ssh_port w) else PyNone),
      ''key'' \<mapsto> (if ssh_enabled w then PyStr (ssh_key w) else PyNone)]"

section \<open>The module-level singleton\<close>

text \<open>
  The module global \<open>_ssh_wrapper_instance\<close> holds \<open>None\<close> or a reference to a wrapper
  object. \<open>instances\<close> is the heap of wrapper objects constructed so far; a reference
  is an index into it, so two references are the same object exactly when they are
  equal. The environment is read at each construction, so it is an argument of the
  getter.
\<close>

record module_state =
  ssh_wrapper_instance :: "ref option"
  instances :: "wrapper list"

definition initial_module :: module_state where
  "initial_module = \<lparr> ssh_wrapper_instance = None, instances = [] \<rparr>"

definition get_ssh_wrapper :: "environ \<Rightarrow> module_state \<Rightarrow> (error + ref) \<times> module_state" where
  "get_ssh_wrapper env g =
     (case ssh_wrapper_instance g of
        None \<Rightarrow>
          (case init env of
             Inl e \<Rightarrow> (Inl e, g)
           | Inr w \<Rightarrow>
               let r = length (instances g);
                   g' = g\<lparr> instances := instances g @ [w], ssh_wrapper_instance := Some r \<rparr>
               in (Inr r, g'))
      | Some r \<Rightarrow> (Inr r, g))"

definition reset_ssh_wrapper :: "module_state \<Rightarrow> module_state" where
  "reset_ssh_wrapper g = g\<lparr> ssh_wrapper_instance := None \<rparr>"

text \<open>A caller that calls the getter once per element of a list of environments.\<close>

fun get_each :: "environ list \<Rightarrow> module_state \<Rightarrow> (error + ref) list \<times> module_state" where
  "get_each [] g = ([], g)"
| "get_each (env # envs) g =
     (let (r, g1) = get_ssh_wrapper env g; (rs, g2) = get_each envs g1 in (r # rs, g2))"

text \<open>The global refers to an object that exists.\<close>

definition instance_valid :: "module_state \<Rightarrow> bool" where
  "instance_valid g =
     (case ssh_wrapper_instance g of None \<Rightarrow> True | Some r \<Rightarrow> r < length (instances g))"

section \<open>Vocabulary of the specification\<close>

text \<open>
  Case-insensitive comparison of two strings, character by character.
\<close>

fun ci_equal :: "string \<Rightarrow> string \<Rightarrow> bool" where
  "ci_equal [] [] = True"
| "ci_equal (a # as) (b # bs) = (lower_char a = lower_char b \<and> ci_equal as bs)"
| "ci_equal _ _ = False"

text \<open>Two given adjacent elements occur somewhere in a list.\<close>

fun has_pair :: "'a \<Rightarrow> 'a \<Rightarrow> 'a list \<Rightarrow> bool" where
  "has_pair a b (x # y # ys) = ((x = a \<and> y = b) \<or> has_pair a b (y # ys))"
| "has_pair a b _ = False"

section \<open>\<open>shlex.split\<close>\<close>

text \<open>
  The shell parsing of the standard library, as \<open>shlex.split(s)\<close> sets it up:
  \<open>posix=True\<close>, \<open>whitespace_split=True\<close>, \<open>commenters=''\<close>, no punctuation
  characters. The lexer's \<open>state\<close> attribute is \<open>None\<close> past the end of the input
  (\<open>AtEof\<close>), \<open>' '\<close> between tokens (\<open>InSpace\<close>), \<open>'a'\<close> inside a word (\<open>InWord\<close>), the
  opening quote character inside quotes (\<open>InQuote\<close>) and the escape character after a
  backslash (\<open>InEscape\<close>).

  \<open>read_loop\<close> is the \<open>while True\<close> loop of \<open>read_token\<close>: each iteration reads one
  character (\<open>[]\<close> is the end of the input, where \<open>read(1)\<close> returns the empty string);
  \<open>emit\<close> is the code after the loop, which turns an empty unquoted token into
  \<open>None\<close>. The branches for comment and punctuation characters cannot be taken with
  empty \<open>commenters\<close> and \<open>punctuation_chars\<close> and are left out. The result carries the
  token, the lexer state and the rest of the input.
\<close>

datatype lex_state = AtEof | InSpace | InWord | InQuote char | InEscape

definition whitespace :: string where
  "whitespace = [CHR '' '', CHR 0x09, CHR 0x0D, CHR 0x0A]"

definition quotes :: string where
  "quotes = [squote, dquote]"

definition escape :: string where
  "escape = [backslash]"

definition escapedquotes :: string where
  "escapedquotes = [dquote]"

text \<open>
  In POSIX mode \<open>wordchars\<close> also holds accented Latin letters. None of them is ASCII,
  and with \<open>whitespace_split\<close> a character outside \<open>wordchars\<close> that is no
  whitespace, quote or escape character takes a branch with the same assignments as the
  \<open>wordchars\<close> branch, so the ASCII part suffices.
\<close>

definition wordchars :: string where
  "wordchars = ''abcdfeghijklmnopqrstuvwxyzABCDEFGHIJKLMNOPQRSTUVWXYZ0123456789_''"

definition emit :: "lex_state \<Rightarrow> string \<Rightarrow> bool \<Rightarrow> string \<Rightarrow> error + (string option \<times> lex_state \<times> string)" where
  "emit st token quoted rest = Inr (if \<not> quoted \<and> token = [] then None else Some token, st, rest)"

fun read_loop :: "lex_state \<Rightarrow> string \<Rightarrow> bool \<Rightarrow> lex_state \<Rightarrow> string \<Rightarrow>
    error + (string option \<times> lex_state \<times> string)" where
  "read_loop AtEof token quoted esc inp = emit AtEof [] quoted (tl inp)"
| "read_loop InSpace token quoted esc [] = emit AtEof token quoted []"
| "read_loop InSpace token quoted esc (c # cs) =
     (if c \<in> set whitespace then
        (if token \<noteq> [] \<or> quoted then emit InSpace token quoted cs
         else read_loop InSpace token quoted esc cs)
      else if c \<in> set escape then read_loop InEscape token quoted InWord cs
      else if c \<in> set wordchars then read_loop InWord [c] quoted esc cs
      else if c \<in> set quotes then read_loop (InQuote c) token quoted esc cs
      else read_loop InWord [c] quoted esc cs)"
| "read_loop (InQuote q) token quoted esc [] = Inl (ValueError ''No closing quotation'')"
| "read_loop (InQuote q) token quoted esc (c # cs) =
     (if c = q then read_loop InWord token True esc cs
      else if c \<in> set escape \<and> q \<in> set escapedquotes
        then read_loop InEscape token True (InQuote q) cs
      else read_loop (InQuote q) (token @ [c]) True esc cs)"
| "read_loop InEscape token quoted esc [] = Inl (ValueError ''No escaped character'')"
| "read_loop InEscape token quoted esc (c # cs) =
     (let token = (if (\<exists>q \<in> set quotes. esc = InQuote q) \<and> c \<noteq> backslash \<and> esc \<noteq> InQuote c
                   then token @ [backslash] else token)
      in read_loop esc (token @ [c]) quoted esc cs)"
| "read_loop InWord token quoted esc [] = emit AtEof token quoted []"
| "read_loop InWord token quoted esc (c # cs) =
     (if c \<in> set whitespace then
        (if token \<noteq> [] \<or> quoted then emit InSpace token quoted cs
         else read_loop InSpace token quoted esc cs)
      else if c \<in> set quotes then read_loop (InQuote c) token quoted esc cs
      else if c \<in> set escape then read_loop InEscape token quoted InWord cs
      else read_loop InWord (token @ [c]) quoted esc cs)"

definition read_token :: "lex_state \<Rightarrow> string \<Rightarrow> error + (string option \<times> lex_state \<times> string)" where
  "read_token st inp = read_loop st [] False InSpace inp"

lemma read_loop_consumes:
  "read_loop st token quoted esc inp = Inr (r, st', rest) \<Longrightarrow>
   length rest \<le> length inp \<and> (st' \<noteq> AtEof \<longrightarrow> length rest < length inp)"
  by (induction st token quoted esc inp rule: read_loop.induct)
     (auto simp: emit_def Let_def split: if_splits)

lemma read_token_progress:
  assumes "read_token st inp = Inr (Some t, st', rest)"
  shows "2 * length rest + (if st' = AtEof then 0 else 1)
           < 2 * length inp + (if st = AtEof then 0 else (1::nat))"
proof -
  from assms have h: "read_loop st [] False InSpace inp = Inr (Some t, st', rest)"
    by (simp add: read_token_def)
  have "st \<noteq> AtEof"
  proof
    assume "st = AtEof"
    with h show False by (simp add: emit_def)
  qed
  with read_loop_consumes[OF h] show ?thesis by auto
qed

function shlex_tokens :: "lex_state \<Rightarrow> string \<Rightarrow> error + string list" where
  "shlex_tokens st inp =
     (case read_token st inp of
        Inl e \<Rightarrow> Inl e
      | Inr (None, st', rest) \<Rightarrow> Inr []
      | Inr (Some t, st', rest) \<Rightarrow>
          (case shlex_tokens st' rest of Inl e \<Rightarrow> Inl e | Inr ts \<Rightarrow> Inr (t # ts)))"
  by pat_completeness auto
termination
  by (relation "measure (\<lambda>(st, inp). 2 * length inp + (if st = AtEof then 0 else 1))")
     (auto dest: read_token_progress)

declare shlex_tokens.simps [simp del]

definition shlex_split :: "string \<Rightarrow> error + string list" where
  "shlex_split s = shlex_tokens InSpace s"


section \<open>Properties\<close>

lemma wrap_command_local: "\<not> ssh_enabled w \<Longrightarrow> wrap_command xp w cmd = cmd"
  by (simp add: wrap_command_def wrap_command_st_def)

lemma wrap_command_remote:
  "ssh_enabled w \<Longrightarrow>
   wrap_command xp w cmd =
     [''ssh''] @
     (if ssh_port w \<noteq> [] \<and> ssh_port w \<noteq> ''22'' then [''-p'', ssh_port w] else []) @
     (if ssh_key w \<noteq> [] then [''-i'', xp (ssh_key w)] else []) @
     [''-o'', ''StrictHostKeyChecking=no'', ''-o'', ''UserKnownHostsFile=/dev/null'',
      ''-o'', ''LogLevel=ERROR''] @
     [ssh_user w @ ''@'' @ ssh_host w] @
     [join '' '' (map shlex_quote cmd)]"
  by (simp add: wrap_command_def wrap_command_st_def new_list_def list_extend_def
      list_append_def Let_def)


lemma wrap_shell_command_local: "\<not> ssh_enabled w \<Longrightarrow> wrap_shell_command xp w s = s"
  by (simp add: wrap_shell_command_def wrap_shell_command_st_def)

lemma wrap_shell_command_remote:
  "ssh_enabled w \<Longrightarrow>
   wrap_shell_command xp w s =
     ''ssh'' @
     (if ssh_port w \<noteq> [] \<and> ssh_port w \<noteq> ''22'' then '' -p '' @ ssh_port w else []) @
     (if ssh_key w \<noteq> [] then '' -i '' @ shlex_quote (xp (ssh_key w)) else []) @
     '' -o StrictHostKeyChecking=no -o UserKnownHostsFile=/dev/null -o LogLevel=ERROR'' @
     '' '' @ ssh_user w @ ''@'' @ ssh_host w @ '' '' @ shlex_quote s"
  by (simp add: wrap_shell_command_def wrap_shell_command_st_def Let_def)

subsection \<open>Parsing a quoted command line\<close>

lemma safe_char_plain:
  "c \<in> set safe_chars \<Longrightarrow> c \<notin> set whitespace \<and> c \<notin> set quotes \<and> c \<notin> set escape"
  by (auto simp: safe_chars_def whitespace_def quotes_def escape_def squote_def dquote_def
      backslash_def)

lemma word_run:
  "\<forall>c \<in> set cs. c \<in> set safe_chars \<Longrightarrow>
   read_loop InWord token quoted esc (cs @ rest) = read_loop InWord (token @ cs) quoted esc rest"
proof (induction cs arbitrary: token)
  case Nil
  then show ?case by simp
next
  case (Cons c cs)
  then have "c \<in> set safe_chars" by simp
  then have "c \<notin> set whitespace" "c \<notin> set quotes" "c \<notin> set escape"
    using safe_char_plain by blast+
  with Cons show ?case by simp
qed

lemma word_start:
  assumes "c \<in> set safe_chars"
  shows "read_loop InSpace token quoted esc (c # cs) = read_loop InWord [c] quoted esc cs"
proof -
  from assms have "c \<notin> set whitespace" "c \<notin> set quotes" "c \<notin> set escape"
    using safe_char_plain by blast+
  then show ?thesis by simp
qed

lemma in_quote_sets_quoted:
  "read_loop (InQuote q) token quoted esc inp = read_loop (InQuote q) token True esc inp"
  by (cases inp) simp_all

lemma squote_run:
  "read_loop (InQuote squote) token True esc
     (replace_char squote [squote, dquote, squote, dquote, squote] a @ rest)
   = read_loop (InQuote squote) (token @ a) True esc rest"
proof (induction a arbitrary: token)
  case Nil
  then show ?case by (simp add: replace_char_def)
next
  case (Cons c a)
  have step: "read_loop (InQuote squote) token True esc
      ((if c = squote then [squote, dquote, squote, dquote, squote] else [c]) @ more)
    = read_loop (InQuote squote) (token @ [c]) True esc more" for more
    by (simp add: whitespace_def quotes_def escape_def escapedquotes_def squote_def dquote_def
        backslash_def)
  have "replace_char squote [squote, dquote, squote, dquote, squote] (c # a) @ rest
      = (if c = squote then [squote, dquote, squote, dquote, squote] else [c]) @
        (replace_char squote [squote, dquote, squote, dquote, squote] a @ rest)"
    by (simp add: replace_char_def)
  then show ?case using step Cons.IH[of "token @ [c]"] by simp
qed

lemma read_quoted_arg:
  "\<exists>quoted. (quoted \<or> a \<noteq> []) \<and>
     read_loop InSpace [] False InSpace (shlex_quote a @ rest) = read_loop InWord a quoted InSpace rest"
proof (cases "a = []")
  case True
  then have "read_loop InSpace [] False InSpace (shlex_quote a @ rest)
      = read_loop InWord a True InSpace rest"
    by (simp add: shlex_quote_def whitespace_def quotes_def escape_def wordchars_def
        squote_def dquote_def backslash_def)
  then show ?thesis by blast
next
  case False
  show ?thesis
  proof (cases "find_unsafe a = None")
    case True
    from False obtain c cs where a: "a = c # cs" by (cases a) auto
    from True have safe: "\<forall>x \<in> set a. x \<in> set safe_chars"
      by (simp add: find_unsafe_def find_None_iff)
    have "shlex_quote a @ rest = c # cs @ rest"
      using True False a by (simp add: shlex_quote_def)
    then have "read_loop InSpace [] False InSpace (shlex_quote a @ rest)
        = read_loop InSpace [] False InSpace (c # cs @ rest)"
      by (simp only:)
    also have "\<dots> = read_loop InWord [c] False InSpace (cs @ rest)"
      by (rule word_start) (use safe a in simp)
    also have "\<dots> = read_loop InWord ([c] @ cs) False InSpace rest"
      using safe a by (intro word_run) simp
    finally show ?thesis using a by auto
  next
    case unsafe: False
    let ?body = "replace_char squote [squote, dquote, squote, dquote, squote] a"
    have "shlex_quote a @ rest = squote # ?body @ squote # rest"
      using unsafe False by (auto simp: shlex_quote_def)
    then have "read_loop InSpace [] False InSpace (shlex_quote a @ rest)
        = read_loop InSpace [] False InSpace (squote # ?body @ squote # rest)"
      by (simp only:)
    also have "\<dots> = read_loop (InQuote squote) [] False InSpace (?body @ squote # rest)"
      by (simp add: whitespace_def quotes_def escape_def wordchars_def
        squote_def dquote_def backslash_def)
    also have "\<dots> = read_loop (InQuote squote) [] True InSpace (?body @ squote # rest)"
      by (rule in_quote_sets_quoted)
    also have "\<dots> = read_loop (InQuote squote) ([] @ a) True InSpace (squote # rest)"
      by (rule squote_run)
    also have "\<dots> = read_loop InWord a True InSpace rest"
      by simp
    finally show ?thesis by blast
  qed
qed

lemma read_token_arg_more:
  "read_token InSpace (shlex_quote a @ CHR '' '' # rest) = Inr (Some a, InSpace, rest)"
proof -
  obtain quoted where q: "quoted \<or> a \<noteq> []"
    and r: "read_loop InSpace [] False InSpace (shlex_quote a @ CHR '' '' # rest)
          = read_loop InWord a quoted InSpace (CHR '' '' # rest)"
    using read_quoted_arg by blast
  from q show ?thesis
    unfolding read_token_def r by (auto simp: whitespace_def emit_def)
qed

lemma read_token_arg_last:
  "read_token InSpace (shlex_quote a) = Inr (Some a, AtEof, [])"
proof -
  obtain quoted where q: "quoted \<or> a \<noteq> []"
    and r: "read_loop InSpace [] False InSpace (shlex_quote a @ [])
          = read_loop InWord a quoted InSpace []"
    using read_quoted_arg by blast
  from q r show ?thesis
    by (auto simp: read_token_def emit_def)
qed

lemma shlex_tokens_eof: "shlex_tokens AtEof inp = Inr []"
  by (subst shlex_tokens.simps) (simp add: read_token_def emit_def)

lemma shlex_split_join_quote:
  "shlex_split (join '' '' (map shlex_quote cmd)) = Inr cmd"
  unfolding shlex_split_def
proof (induction cmd rule: induct_list012)
  case 1
  show ?case by (subst shlex_tokens.simps) (simp add: read_token_def emit_def)
next
  case (2 a)
  show ?case by (subst shlex_tokens.simps) (simp add: read_token_arg_last shlex_tokens_eof)
next
  case (3 a b bs)
  have "join '' '' (map shlex_quote (a # b # bs))
      = shlex_quote a @ CHR '' '' # join '' '' (map shlex_quote (b # bs))"
    by simp
  then show ?case using 3
    by (subst shlex_tokens.simps) (simp add: read_token_arg_more)
qed

subsection \<open>Configuration resolution\<close>

lemma ci_equal_lower: "ci_equal s t \<longleftrightarrow> lower s = lower t"
  by (induction s t rule: ci_equal.induct) (simp_all add: lower_def)

lemma lower_words: "lower ''true'' = ''true''" "lower ''1'' = ''1''" "lower ''yes'' = ''yes''"
  by (simp_all add: lower_def lower_char_def ascii_uppercase_def ascii_lowercase_def)

lemma enabled_iff:
  "ssh_enabled (read_settings env) \<longleftrightarrow>
     (\<exists>v. env ''KUBECTL_SSH_ENABLED'' = Some v \<and>
          (ci_equal v ''true'' \<or> ci_equal v ''1'' \<or> ci_equal v ''yes''))"
proof (cases "env ''KUBECTL_SSH_ENABLED''")
  case None
  then show ?thesis
    by (simp add: read_settings_def environ_get_def lower_def lower_char_def
        ascii_uppercase_def ascii_lowercase_def)
next
  case (Some v)
  then show ?thesis
    using lower_words
    by (simp add: read_settings_def environ_get_def ci_equal_lower)
qed

lemma init_cases:
  "init env =
     (if ssh_enabled (read_settings env) \<and> ssh_user (read_settings env) = []
        then Inl (ValueError user_required)
      else if ssh_enabled (read_settings env) \<and> ssh_host (read_settings env) = []
        then Inl (ValueError host_required)
      else Inr (read_settings env))"
  by (simp add: init_def validate_config_def Let_def)

lemma read_settings_port_key:
  "ssh_enabled (read_settings (env(''KUBECTL_SSH_PORT'' := p, ''KUBECTL_SSH_KEY'' := k)))
     = ssh_enabled (read_settings env)"
  "ssh_user (read_settings (env(''KUBECTL_SSH_PORT'' := p, ''KUBECTL_SSH_KEY'' := k)))
     = ssh_user (read_settings env)"
  "ssh_host (read_settings (env(''KUBECTL_SSH_PORT'' := p, ''KUBECTL_SSH_KEY'' := k)))
     = ssh_host (read_settings env)"
  by (simp_all add: read_settings_def environ_get_def)

subsection \<open>The port flag\<close>

lemma destination_not_port_flag: "u @ CHR ''@'' # h \<noteq> ''-p''"
proof
  assume eq: "u @ CHR ''@'' # h = ''-p''"
  have "CHR ''@'' \<in> set (u @ CHR ''@'' # h)" by simp
  then have "CHR ''@'' \<in> set ''-p''" by (simp only: eq)
  then show False by simp
qed

lemma has_port_pair_iff:
  assumes "ssh_enabled w"
  shows "has_pair ''-p'' (ssh_port w) (wrap_command xp w cmd)
           \<longleftrightarrow> ssh_port w \<noteq> [] \<and> ssh_port w \<noteq> ''22''"
proof (cases "ssh_port w \<noteq> [] \<and> ssh_port w \<noteq> ''22''")
  case True
  with assms show ?thesis by (simp add: wrap_command_remote)
next
  case False
  then consider "ssh_port w = []" | "ssh_port w = ''22''" by blast
  then show ?thesis
  proof cases
    case 1
    with assms show ?thesis
      by (cases "ssh_key w = []") (simp_all add: wrap_command_remote destination_not_port_flag)
  next
    case 2
    with assms show ?thesis
      by (cases "ssh_key w = []") (simp_all add: wrap_command_remote destination_not_port_flag)
  qed
qed

lemma shell_port_prefix_iff:
  assumes "ssh_enabled w"
  shows "prefix (''ssh -p '' @ ssh_port w) (wrap_shell_command xp w s)
           \<longleftrightarrow> ssh_port w \<noteq> [] \<and> ssh_port w \<noteq> ''22''"
proof (cases "ssh_port w \<noteq> [] \<and> ssh_port w \<noteq> ''22''")
  case True
  with assms show ?thesis by (simp add: wrap_shell_command_remote)
next
  case False
  with assms show ?thesis
    by (cases "ssh_key w = []") (auto simp: wrap_shell_command_remote)
qed

subsection \<open>The store after a call\<close>

lemma wrap_command_st_local:
  "\<not> ssh_enabled (self s) \<Longrightarrow> wrap_command_st xp s cmd = (cmd, s)"
  by (simp add: wrap_command_st_def)

lemma wrap_command_st_remote:
  assumes "ssh_enabled (self s)" "cmd < length (lists s)"
  shows "wrap_command_st xp s cmd =
     (length (lists s),
      s\<lparr>lists := lists s @ [wrap_command xp (self s) (lists s ! cmd)]\<rparr>)"
  using assms
  by (simp add: wrap_command_remote wrap_command_st_def new_list_def list_extend_def
      list_append_def Let_def nth_append)

subsection \<open>The cached instance\<close>

lemma get_cached:
  "ssh_wrapper_instance g = Some r \<Longrightarrow> get_ssh_wrapper env g = (Inr r, g)"
  by (simp add: get_ssh_wrapper_def)

lemma get_each_cached:
  "ssh_wrapper_instance g = Some r \<Longrightarrow>
   get_each envs g = (replicate (length envs) (Inr r), g)"
  by (induction envs) (simp_all add: get_cached)

lemma get_returns_cached:
  assumes "get_ssh_wrapper env g = (Inr r, g')"
  shows "ssh_wrapper_instance g' = Some r"
  using assms
  by (auto simp: get_ssh_wrapper_def Let_def split: option.splits sum.splits)

lemma get_keeps_valid:
  assumes "get_ssh_wrapper env g = (Inr r, g')" "instance_valid g"
  shows "r < length (instances g')"
  using assms
  by (auto simp: get_ssh_wrapper_def instance_valid_def Let_def split: option.splits sum.splits)

lemma get_after_reset:
  "get_ssh_wrapper env (reset_ssh_wrapper g) =
     (case init env of
        Inl e \<Rightarrow> (Inl e, reset_ssh_wrapper g)
      | Inr w \<Rightarrow> (Inr (length (instances g)),
                  \<lparr>ssh_wrapper_instance = Some (length (instances g)),
                   instances = instances g @ [w]\<rparr>))"
  by (simp add: get_ssh_wrapper_def reset_ssh_wrapper_def Let_def split: sum.splits)

section \<open>The claims\<close>

text \<open>
  Claim C1. In remote mode \<open>wrap_command\<close> returns exactly: \<open>ssh\<close>; then \<open>-p\<close> and the
  port, only if the port is non-empty and differs from \<open>22\<close>; then \<open>-i\<close> and the
  home-expanded key path, only if a key path is configured; then the three fixed option
  pairs in their order; then \<open>user@host\<close>; then, as the last element, the elements of
  \<open>cmd\<close> each shell-escaped and joined by single spaces.
\<close>
theorem wrap_command_shape:
  assumes "ssh_enabled w"
  shows "wrap_command xp w cmd =
     [''ssh''] @
     (if ssh_port w \<noteq> [] \<and> ssh_port w \<noteq> ''22'' then [''-p'', ssh_port w] else []) @
     (if ssh_key w \<noteq> [] then [''-i'', xp (ssh_key w)] else []) @
     [''-o'', ''StrictHostKeyChecking=no'', ''-o'', ''UserKnownHostsFile=/dev/null'',
      ''-o'', ''LogLevel=ERROR''] @
     [ssh_user w @ ''@'' @ ssh_host w] @
     [join '' '' (map shlex_quote cmd)]"
  using assms by (rule wrap_command_remote)

theorem wrap_command_shape_witness:
  "ssh_enabled \<lparr>ssh_enabled = True, ssh_user = ''alice'', ssh_host = ''10.0.0.5'',
                 ssh_port = ''22'', ssh_key = []\<rparr> \<and>
   wrap_command (\<lambda>p. p) \<lparr>ssh_enabled = True, ssh_user = ''alice'', ssh_host = ''10.0.0.5'',
                    ssh_port = ''22'', ssh_key = []\<rparr> [''kubectl'', ''get'', ''pods''] =
     [''ssh'', ''-o'', ''StrictHostKeyChecking=no'', ''-o'', ''UserKnownHostsFile=/dev/null'',
      ''-o'', ''LogLevel=ERROR'', ''alice@10.0.0.5'', ''kubectl get pods'']"
  using wrap_command_shape [of "\<lparr>ssh_enabled = True, ssh_user = ''alice'', ssh_host = ''10.0.0.5'',
                 ssh_port = ''22'', ssh_key = []\<rparr>" "\<lambda>p. p" "[''kubectl'', ''get'', ''pods'']"]
  by (simp add: shlex_quote_def find_unsafe_def safe_chars_def)

text \<open>
  Claim C2. When remote mode is disabled, \<open>wrap_command\<close> returns \<open>cmd\<close> and
  \<open>wrap_shell_command\<close> returns the string it was given, whatever the user, host, port
  and key settings are.
\<close>
theorem local_mode_identity:
  assumes "\<not> ssh_enabled w"
  shows "wrap_command xp w cmd = cmd \<and> wrap_shell_command xp w s = s"
  using assms by (simp add: wrap_command_local wrap_shell_command_local)

theorem local_mode_identity_witness:
  "\<not> ssh_enabled \<lparr>ssh_enabled = False, ssh_user = ''alice'', ssh_host = ''10.0.0.5'',
                 ssh_port = ''2222'', ssh_key = ''~/.ssh/id''\<rparr> \<and>
   wrap_command (\<lambda>p. p) \<lparr>ssh_enabled = False, ssh_user = ''alice'', ssh_host = ''10.0.0.5'',
                 ssh_port = ''2222'', ssh_key = ''~/.ssh/id''\<rparr> [''kubectl'', ''get'', ''pods'']
     = [''kubectl'', ''get'', ''pods''] \<and>
   wrap_shell_command (\<lambda>p. p) \<lparr>ssh_enabled = False, ssh_user = ''alice'', ssh_host = ''10.0.0.5'',
                 ssh_port = ''2222'', ssh_key = ''~/.ssh/id''\<rparr> ''kubectl get pods | grep Running''
     = ''kubectl get pods | grep Running''"
  using local_mode_identity [of "\<lparr>ssh_enabled = False, ssh_user = ''alice'', ssh_host = ''10.0.0.5'',
                 ssh_port = ''2222'', ssh_key = ''~/.ssh/id''\<rparr>" "\<lambda>p. p" "[''kubectl'', ''get'', ''pods'']"
                 "''kubectl get pods | grep Running''"]
  by simp

text \<open>
  Claim C3. In remote mode, splitting the last element of \<open>wrap_command\<close>'s result with
  \<open>shlex.split\<close> succeeds and gives back the argument list \<open>cmd\<close>, for every \<open>cmd\<close>.
\<close>
theorem remote_command_round_trip:
  assumes "ssh_enabled w"
  shows "shlex_split (last (wrap_command xp w cmd)) = Inr cmd"
  using assms by (simp add: wrap_command_remote shlex_split_join_quote)

theorem remote_command_round_trip_witness:
  "ssh_enabled \<lparr>ssh_enabled = True, ssh_user = ''alice'', ssh_host = ''10.0.0.5'',
                 ssh_port = ''22'', ssh_key = []\<rparr> \<and>
   last (wrap_command (\<lambda>p. p) \<lparr>ssh_enabled = True, ssh_user = ''alice'', ssh_host = ''10.0.0.5'',
                 ssh_port = ''22'', ssh_key = []\<rparr> [''echo'', ''a b'', [squote], []])
     = ''echo '' @ [squote] @ ''a b'' @ [squote] @ '' '' @
       [squote, squote, dquote, squote, dquote, squote, squote] @ '' '' @ [squote, squote] \<and>
   shlex_split (last (wrap_command (\<lambda>p. p) \<lparr>ssh_enabled = True, ssh_user = ''alice'',
                 ssh_host = ''10.0.0.5'', ssh_port = ''22'', ssh_key = []\<rparr>
                 [''echo'', ''a b'', [squote], []]))
     = Inr [''echo'', ''a b'', [squote], []]"
  using remote_command_round_trip [of "\<lparr>ssh_enabled = True, ssh_user = ''alice'',
                 ssh_host = ''10.0.0.5'', ssh_port = ''22'', ssh_key = []\<rparr>" "\<lambda>p. p"
                 "[''echo'', ''a b'', [squote], []]"]
  by (simp add: wrap_command_remote shlex_quote_def find_unsafe_def safe_chars_def
      replace_char_def squote_def dquote_def)

text \<open>
  Claim C4. Construction fails exactly when the enable flag is truthy and the username
  or the host is empty. The username is checked first, so with both missing the error
  is the one that names the username. With the flag truthy and both present it
  succeeds whatever the port and key settings are, and with the flag falsy it always
  succeeds. The error the code raises is \<open>ValueError\<close>.
\<close>
theorem init_fails_exactly:
  "((\<exists>e. init env = Inl e) \<longleftrightarrow>
      ssh_enabled (read_settings env) \<and>
      (ssh_user (read_settings env) = [] \<or> ssh_host (read_settings env) = [])) \<and>
   (ssh_enabled (read_settings env) \<and> ssh_user (read_settings env) = [] \<longrightarrow>
      init env = Inl (ValueError user_required)) \<and>
   (ssh_enabled (read_settings env) \<and> ssh_user (read_settings env) \<noteq> [] \<and>
    ssh_host (read_settings env) = [] \<longrightarrow>
      init env = Inl (ValueError host_required)) \<and>
   user_required \<noteq> host_required \<and>
   (ssh_enabled (read_settings env) \<and> ssh_user (read_settings env) \<noteq> [] \<and>
    ssh_host (read_settings env) \<noteq> [] \<longrightarrow>
      (\<forall>p k. init (env(''KUBECTL_SSH_PORT'' := p, ''KUBECTL_SSH_KEY'' := k)) =
             Inr (read_settings (env(''KUBECTL_SSH_PORT'' := p, ''KUBECTL_SSH_KEY'' := k))))) \<and>
   (\<not> ssh_enabled (read_settings env) \<longrightarrow> init env = Inr (read_settings env))"
proof -
  have "user_required \<noteq> host_required"
    by (simp add: user_required_def host_required_def)
  then show ?thesis
    by (simp add: init_cases read_settings_port_key)
qed

theorem init_fails_exactly_witness:
  "init [''KUBECTL_SSH_ENABLED'' \<mapsto> ''TRUE''] = Inl (ValueError user_required) \<and>
   init [''KUBECTL_SSH_ENABLED'' \<mapsto> ''TRUE'', ''KUBECTL_SSH_USER'' \<mapsto> ''alice'']
     = Inl (ValueError host_required)"
  using init_fails_exactly [of "[''KUBECTL_SSH_ENABLED'' \<mapsto> ''TRUE'']"]
    init_fails_exactly [of "[''KUBECTL_SSH_ENABLED'' \<mapsto> ''TRUE'', ''KUBECTL_SSH_USER'' \<mapsto> ''alice'']"]
  by (simp add: read_settings_def environ_get_def lower_def lower_char_def
      ascii_uppercase_def ascii_lowercase_def)

text \<open>
  Claim C7. The enabled flag is true exactly when the enable setting is set and equals,
  case-insensitively, one of \<open>true\<close>, \<open>1\<close>, \<open>yes\<close>; an unset setting gives false; a
  constructed wrapper carries that flag.
\<close>
theorem enabled_flag_truthy:
  "(ssh_enabled (read_settings env) \<longleftrightarrow>
      (\<exists>v. env ''KUBECTL_SSH_ENABLED'' = Some v \<and>
           (ci_equal v ''true'' \<or> ci_equal v ''1'' \<or> ci_equal v ''yes''))) \<and>
   (env ''KUBECTL_SSH_ENABLED'' = None \<longrightarrow> \<not> ssh_enabled (read_settings env)) \<and>
   (\<forall>w. init env = Inr w \<longrightarrow> ssh_enabled w = ssh_enabled (read_settings env))"
proof -
  have "\<forall>w. init env = Inr w \<longrightarrow> w = read_settings env"
    by (simp add: init_cases)
  then show ?thesis using enabled_iff [of env] by auto
qed

theorem enabled_flag_truthy_witness:
  "ssh_enabled (read_settings [''KUBECTL_SSH_ENABLED'' \<mapsto> ''YeS'']) \<and>
   \<not> ssh_enabled (read_settings [''KUBECTL_SSH_ENABLED'' \<mapsto> ''on'']) \<and>
   \<not> ssh_enabled (read_settings Map.empty)"
  using enabled_flag_truthy [of "[''KUBECTL_SSH_ENABLED'' \<mapsto> ''YeS'']"]
    enabled_flag_truthy [of "[''KUBECTL_SSH_ENABLED'' \<mapsto> ''on'']"]
    enabled_flag_truthy [of "Map.empty"]
  by (simp add: lower_char_def ascii_uppercase_def ascii_lowercase_def)

text \<open>
  Claim C6. \<open>get_connection_info\<close> always has the \<open>enabled\<close> entry; when enabled, the
  user, host, port and key entries are the configured values; when disabled, all four
  are \<open>None\<close>, whatever the configured values are.
\<close>
theorem connection_info_entries:
  "get_connection_info w ''enabled'' = Some (PyBool (ssh_enabled w)) \<and>
   dom (get_connection_info w) = {''enabled'', ''user'', ''host'', ''port'', ''key''} \<and>
   (ssh_enabled w \<longrightarrow>
      get_connection_info w ''user'' = Some (PyStr (ssh_user w)) \<and>
      get_connection_info w ''host'' = Some (PyStr (ssh_host w)) \<and>
      get_connection_info w ''port'' = Some (PyStr (ssh_port w)) \<and>
      get_connection_info w ''key'' = Some (PyStr (ssh_key w))) \<and>
   (\<not> ssh_enabled w \<longrightarrow>
      get_connection_info w ''user'' = Some PyNone \<and>
      get_connection_info w ''host'' = Some PyNone \<and>
      get_connection_info w ''port'' = Some PyNone \<and>
      get_connection_info w ''key'' = Some PyNone)"
  by (auto simp: get_connection_info_def)

theorem connection_info_entries_witness:
  "init [''KUBECTL_SSH_USER'' \<mapsto> ''alice'', ''KUBECTL_SSH_HOST'' \<mapsto> ''10.0.0.5'',
         ''KUBECTL_SSH_KEY'' \<mapsto> ''~/.ssh/id'']
     = Inr \<lparr>ssh_enabled = False, ssh_user = ''alice'', ssh_host = ''10.0.0.5'',
            ssh_port = ''22'', ssh_key = ''~/.ssh/id''\<rparr> \<and>
   get_connection_info \<lparr>ssh_enabled = False, ssh_user = ''alice'', ssh_host = ''10.0.0.5'',
            ssh_port = ''22'', ssh_key = ''~/.ssh/id''\<rparr> ''user'' = Some PyNone \<and>
   get_connection_info \<lparr>ssh_enabled = False, ssh_user = ''alice'', ssh_host = ''10.0.0.5'',
            ssh_port = ''22'', ssh_key = ''~/.ssh/id''\<rparr> ''key'' = Some PyNone \<and>
   get_connection_info \<lparr>ssh_enabled = True, ssh_user = ''alice'', ssh_host = ''10.0.0.5'',
            ssh_port = ''22'', ssh_key = ''~/.ssh/id''\<rparr> ''user'' = Some (PyStr ''alice'')"
  using connection_info_entries [of "\<lparr>ssh_enabled = False, ssh_user = ''alice'',
            ssh_host = ''10.0.0.5'', ssh_port = ''22'', ssh_key = ''~/.ssh/id''\<rparr>"]
    connection_info_entries [of "\<lparr>ssh_enabled = True, ssh_user = ''alice'',
            ssh_host = ''10.0.0.5'', ssh_port = ''22'', ssh_key = ''~/.ssh/id''\<rparr>"]
  by (simp add: init_def read_settings_def environ_get_def lower_def lower_char_def
      ascii_uppercase_def ascii_lowercase_def)

text \<open>
  Claim C8. \<open>wrap_command\<close> of the empty list is the empty list in local mode; in
  remote mode it is the full invocation (program, conditional flags, fixed options,
  destination) followed by the empty string.
\<close>
theorem wrap_empty_command:
  "(\<not> ssh_enabled w \<longrightarrow> wrap_command xp w [] = []) \<and>
   (ssh_enabled w \<longrightarrow>
      wrap_command xp w [] =
        [''ssh''] @
        (if ssh_port w \<noteq> [] \<and> ssh_port w \<noteq> ''22'' then [''-p'', ssh_port w] else []) @
        (if ssh_key w \<noteq> [] then [''-i'', xp (ssh_key w)] else []) @
        [''-o'', ''StrictHostKeyChecking=no'', ''-o'', ''UserKnownHostsFile=/dev/null'',
         ''-o'', ''LogLevel=ERROR''] @
        [ssh_user w @ ''@'' @ ssh_host w] @ [[]] \<and>
      last (wrap_command xp w []) = [])"
  by (simp add: wrap_command_local wrap_command_remote)

theorem wrap_empty_command_witness:
  "wrap_command (\<lambda>p. p) \<lparr>ssh_enabled = False, ssh_user = [], ssh_host = [], ssh_port = ''22'',
                    ssh_key = []\<rparr> [] = [] \<and>
   wrap_command (\<lambda>p. p) \<lparr>ssh_enabled = True, ssh_user = ''alice'', ssh_host = ''10.0.0.5'',
                    ssh_port = ''2222'', ssh_key = []\<rparr> [] =
     [''ssh'', ''-p'', ''2222'', ''-o'', ''StrictHostKeyChecking=no'', ''-o'',
      ''UserKnownHostsFile=/dev/null'', ''-o'', ''LogLevel=ERROR'', ''alice@10.0.0.5'', []]"
  using wrap_empty_command [of "\<lparr>ssh_enabled = False, ssh_user = [], ssh_host = [],
                    ssh_port = ''22'', ssh_key = []\<rparr>" "\<lambda>p. p"]
    wrap_empty_command [of "\<lparr>ssh_enabled = True, ssh_user = ''alice'', ssh_host = ''10.0.0.5'',
                    ssh_port = ''2222'', ssh_key = []\<rparr>" "\<lambda>p. p"]
  by simp

text \<open>
  Claim C5. In remote mode the output carries the port flag exactly when the configured
  port is non-empty and is not the string \<open>22\<close>, compared as strings: the list of
  \<open>wrap_command\<close> has \<open>-p\<close> directly followed by the port, and the string of
  \<open>wrap_shell_command\<close> starts with \<open>ssh -p\<close> and the port, in exactly that case.
\<close>
theorem port_flag_iff:
  assumes "ssh_enabled w"
  shows "(has_pair ''-p'' (ssh_port w) (wrap_command xp w cmd)
            \<longleftrightarrow> ssh_port w \<noteq> [] \<and> ssh_port w \<noteq> ''22'') \<and>
         (prefix (''ssh -p '' @ ssh_port w) (wrap_shell_command xp w s)
            \<longleftrightarrow> ssh_port w \<noteq> [] \<and> ssh_port w \<noteq> ''22'')"
  using assms has_port_pair_iff shell_port_prefix_iff by blast

theorem port_flag_iff_witness:
  "ssh_enabled \<lparr>ssh_enabled = True, ssh_user = ''alice'', ssh_host = ''10.0.0.5'',
                 ssh_port = ''022'', ssh_key = []\<rparr> \<and>
   has_pair ''-p'' ''022''
     (wrap_command (\<lambda>p. p) \<lparr>ssh_enabled = True, ssh_user = ''alice'', ssh_host = ''10.0.0.5'',
                       ssh_port = ''022'', ssh_key = []\<rparr> [''ls'']) \<and>
   prefix ''ssh -p 022''
     (wrap_shell_command (\<lambda>p. p) \<lparr>ssh_enabled = True, ssh_user = ''alice'', ssh_host = ''10.0.0.5'',
                       ssh_port = ''022'', ssh_key = []\<rparr> ''ls'') \<and>
   \<not> has_pair ''-p'' ''22''
     (wrap_command (\<lambda>p. p) \<lparr>ssh_enabled = True, ssh_user = ''alice'', ssh_host = ''10.0.0.5'',
                       ssh_port = ''22'', ssh_key = []\<rparr> [''ls'']) \<and>
   \<not> prefix ''ssh -p 22''
     (wrap_shell_command (\<lambda>p. p) \<lparr>ssh_enabled = True, ssh_user = ''alice'', ssh_host = ''10.0.0.5'',
                       ssh_port = ''22'', ssh_key = []\<rparr> ''ls'')"
  using port_flag_iff [of "\<lparr>ssh_enabled = True, ssh_user = ''alice'', ssh_host = ''10.0.0.5'',
                       ssh_port = ''022'', ssh_key = []\<rparr>" "\<lambda>p. p" "[''ls'']" "''ls''"]
    port_flag_iff [of "\<lparr>ssh_enabled = True, ssh_user = ''alice'', ssh_host = ''10.0.0.5'',
                       ssh_port = ''22'', ssh_key = []\<rparr>" "\<lambda>p. p" "[''ls'']" "''ls''"]
  by simp

text \<open>
  Claim C10. Neither operation changes its input or the configuration. After
  \<open>wrap_command\<close> the wrapper object is the same, the list \<open>cmd\<close> and every other list
  that existed before hold the same elements, and in remote mode the result is a newly
  allocated list, distinct from \<open>cmd\<close>, while in local mode the call returns \<open>cmd\<close>
  itself and leaves the store as it was. \<open>wrap_shell_command\<close> leaves the wrapper
  object as it was.
\<close>
theorem wrap_preserves_inputs:
  assumes "cmd < length (lists s)"
  shows "self (snd (wrap_command_st xp s cmd)) = self s \<and>
         lists (snd (wrap_command_st xp s cmd)) ! cmd = lists s ! cmd \<and>
         take (length (lists s)) (lists (snd (wrap_command_st xp s cmd))) = lists s \<and>
         (ssh_enabled (self s) \<longrightarrow>
            fst (wrap_command_st xp s cmd) = length (lists s) \<and>
            fst (wrap_command_st xp s cmd) \<noteq> cmd \<and>
            length (lists (snd (wrap_command_st xp s cmd))) = Suc (length (lists s))) \<and>
         (\<not> ssh_enabled (self s) \<longrightarrow> wrap_command_st xp s cmd = (cmd, s)) \<and>
         lists (snd (wrap_command_st xp s cmd)) ! fst (wrap_command_st xp s cmd)
           = wrap_command xp (self s) (lists s ! cmd) \<and>
         snd (wrap_shell_command_st xp w str) = w"
proof (cases "ssh_enabled (self s)")
  case True
  have "snd (wrap_shell_command_st xp w str) = w"
    by (simp add: wrap_shell_command_st_def Let_def)
  with True assms show ?thesis
    by (simp add: wrap_command_st_remote nth_append)
next
  case False
  have "snd (wrap_shell_command_st xp w str) = w"
    by (simp add: wrap_shell_command_st_def Let_def)
  with False assms show ?thesis
    by (simp add: wrap_command_st_local wrap_command_local)
qed

theorem wrap_preserves_inputs_witness:
  "(0::nat) < length (lists \<lparr>self = \<lparr>ssh_enabled = True, ssh_user = ''alice'',
        ssh_host = ''10.0.0.5'', ssh_port = ''2222'', ssh_key = []\<rparr>, lists = [[''ls'', ''-l'']]\<rparr>) \<and>
   self (snd (wrap_command_st (\<lambda>p. p) \<lparr>self = \<lparr>ssh_enabled = True, ssh_user = ''alice'',
        ssh_host = ''10.0.0.5'', ssh_port = ''2222'', ssh_key = []\<rparr>, lists = [[''ls'', ''-l'']]\<rparr> 0))
     = \<lparr>ssh_enabled = True, ssh_user = ''alice'',
        ssh_host = ''10.0.0.5'', ssh_port = ''2222'', ssh_key = []\<rparr> \<and>
   lists (snd (wrap_command_st (\<lambda>p. p) \<lparr>self = \<lparr>ssh_enabled = True, ssh_user = ''alice'',
        ssh_host = ''10.0.0.5'', ssh_port = ''2222'', ssh_key = []\<rparr>, lists = [[''ls'', ''-l'']]\<rparr> 0)) ! 0
     = [''ls'', ''-l''] \<and>
   fst (wrap_command_st (\<lambda>p. p) \<lparr>self = \<lparr>ssh_enabled = True, ssh_user = ''alice'',
        ssh_host = ''10.0.0.5'', ssh_port = ''2222'', ssh_key = []\<rparr>, lists = [[''ls'', ''-l'']]\<rparr> 0)
     = 1 \<and>
   lists (snd (wrap_command_st (\<lambda>p. p) \<lparr>self = \<lparr>ssh_enabled = True, ssh_user = ''alice'',
        ssh_host = ''10.0.0.5'', ssh_port = ''2222'', ssh_key = []\<rparr>, lists = [[''ls'', ''-l'']]\<rparr> 0)) ! 1
     = [''ssh'', ''-p'', ''2222'', ''-o'', ''StrictHostKeyChecking=no'', ''-o'',
        ''UserKnownHostsFile=/dev/null'', ''-o'', ''LogLevel=ERROR'', ''alice@10.0.0.5'', ''ls -l'']"
proof -
  let ?s = "\<lparr>self = \<lparr>ssh_enabled = True, ssh_user = ''alice'',
        ssh_host = ''10.0.0.5'', ssh_port = ''2222'', ssh_key = []\<rparr>, lists = [[''ls'', ''-l'']]\<rparr>"
  have h: "(0::nat) < length (lists ?s)" by simp
  have q: "wrap_command (\<lambda>p. p) (self ?s) [''ls'', ''-l''] =
      [''ssh'', ''-p'', ''2222'', ''-o'', ''StrictHostKeyChecking=no'', ''-o'',
                     ''UserKnownHostsFile=/dev/null'', ''-o'', ''LogLevel=ERROR'',
                     ''alice@10.0.0.5'', ''ls -l'']"
    by (simp add: wrap_command_remote shlex_quote_def find_unsafe_def safe_chars_def)
  from wrap_preserves_inputs [where xp = "\<lambda>p. p" and w = "self ?s" and str = "[]", OF h] q
  show ?thesis by (elim conjE) simp
qed

text \<open>
  Claim C9. Once the getter has returned an instance, every later call returns that
  same instance and changes nothing, whatever the environment has become, so nothing
  is constructed again. \<open>reset_ssh_wrapper\<close> clears the global; the next call of the
  getter then constructs a new object, distinct from the earlier one, from the
  environment of that call, or raises what the constructor raises and caches nothing.
\<close>
theorem singleton_cached_until_reset:
  assumes "instance_valid g" and "get_ssh_wrapper env g = (Inr r, g')"
  shows "get_each envs g' = (replicate (length envs) (Inr r), g') \<and>
         ssh_wrapper_instance (reset_ssh_wrapper g') = None \<and>
         instances (reset_ssh_wrapper g') = instances g' \<and>
         (\<forall>w. init env' = Inr w \<longrightarrow>
            get_ssh_wrapper env' (reset_ssh_wrapper g') =
              (Inr (length (instances g')),
               \<lparr>ssh_wrapper_instance = Some (length (instances g')),
                instances = instances g' @ [w]\<rparr>) \<and>
            length (instances g') \<noteq> r \<and> w = read_settings env') \<and>
         (\<forall>e. init env' = Inl e \<longrightarrow>
            get_ssh_wrapper env' (reset_ssh_wrapper g') = (Inl e, reset_ssh_wrapper g'))"
proof -
  have cached: "ssh_wrapper_instance g' = Some r"
    using assms(2) by (rule get_returns_cached)
  have "r < length (instances g')"
    using assms(2,1) by (rule get_keeps_valid)
  moreover have "\<forall>w. init env' = Inr w \<longrightarrow> w = read_settings env'"
    by (simp add: init_cases)
  moreover have "ssh_wrapper_instance (reset_ssh_wrapper g') = None"
    "instances (reset_ssh_wrapper g') = instances g'"
    by (simp_all add: reset_ssh_wrapper_def)
  ultimately show ?thesis
    using get_each_cached [OF cached, of envs]
    by (simp add: get_after_reset)
qed

theorem singleton_cached_until_reset_witness:
  "instance_valid initial_module \<and>
   get_ssh_wrapper Map.empty initial_module =
     (Inr 0, \<lparr>ssh_wrapper_instance = Some 0, instances = [read_settings Map.empty]\<rparr>) \<and>
   get_each [[''KUBECTL_SSH_ENABLED'' \<mapsto> ''true''], Map.empty]
       \<lparr>ssh_wrapper_instance = Some 0, instances = [read_settings Map.empty]\<rparr> =
     ([Inr 0, Inr 0], \<lparr>ssh_wrapper_instance = Some 0, instances = [read_settings Map.empty]\<rparr>) \<and>
   get_ssh_wrapper [''KUBECTL_SSH_PORT'' \<mapsto> ''2222'']
       (reset_ssh_wrapper \<lparr>ssh_wrapper_instance = Some 0, instances = [read_settings Map.empty]\<rparr>) =
     (Inr 1, \<lparr>ssh_wrapper_instance = Some 1,
              instances = [read_settings Map.empty,
                           read_settings [''KUBECTL_SSH_PORT'' \<mapsto> ''2222'']]\<rparr>)"
proof -
  have v: "instance_valid initial_module"
    by (simp add: instance_valid_def initial_module_def)
  have i0: "init Map.empty = Inr (read_settings Map.empty)"
    by (simp add: init_cases read_settings_def environ_get_def lower_def lower_char_def
        ascii_uppercase_def ascii_lowercase_def)
  have g: "get_ssh_wrapper Map.empty initial_module =
     (Inr 0, \<lparr>ssh_wrapper_instance = Some 0, instances = [read_settings Map.empty]\<rparr>)"
    by (simp add: get_ssh_wrapper_def initial_module_def i0)
  have i1: "init [''KUBECTL_SSH_PORT'' \<mapsto> ''2222''] =
      Inr (read_settings [''KUBECTL_SSH_PORT'' \<mapsto> ''2222''])"
    by (simp add: init_cases read_settings_def environ_get_def lower_def lower_char_def
        ascii_uppercase_def ascii_lowercase_def)
  from singleton_cached_until_reset [OF v g,
      where envs = "[[''KUBECTL_SSH_ENABLED'' \<mapsto> ''true''], Map.empty]"
        and env' = "[''KUBECTL_SSH_PORT'' \<mapsto> ''2222'']"] v g i1
  show ?thesis by (elim conjE) simp
qed

end
